theory Spec2Isabelle
  imports Complex_Main "HOL-Library.AList"
begin

section \<open>Settings (src/config/settings.py)\<close>

text \<open>
  Python floats are read as real numbers: the arithmetic of the model is exact, and
  rounding, infinities and NaN are outside it. Time stamps are natural numbers handed
  in by the caller, one instant per call of \<open>execute_signal\<close>.
\<close>

definition DEFAULT_TRADE_AMOUNT_USDT :: real where
  "DEFAULT_TRADE_AMOUNT_USDT = 100"

definition MAX_TRADE_AMOUNT_USDT :: real where
  "MAX_TRADE_AMOUNT_USDT = 1000"

definition MIN_TRADE_AMOUNT_USDT :: real where
  "MIN_TRADE_AMOUNT_USDT = 10"

definition MAX_OPEN_POSITIONS :: nat where
  "MAX_OPEN_POSITIONS = 5"

definition MAX_POSITION_PER_COIN :: nat where
  "MAX_POSITION_PER_COIN = 1"

definition PAPER_TRADING :: bool where
  "PAPER_TRADING = True"

section \<open>Data model (src/core/executor.py)\<close>

datatype py_error = KeyError | ZeroDivisionError

datatype SignalType = BUY | SELL | HOLD

record TradingSignal =
  signal_type :: SignalType
  symbol :: string
  price :: real
  reasons :: "string list"

datatype OrderStatus = PENDING | FILLED | CANCELLED | FAILED

record Order =
  order_id :: string
  o_symbol :: string
  o_side :: string
  order_type :: string
  o_quantity :: real
  o_price :: real
  o_status :: OrderStatus
  timestamp :: nat
  filled_price :: real
  fee :: real
  o_is_paper :: bool

record Trade =
  trade_id :: string
  t_symbol :: string
  t_side :: string
  t_quantity :: real
  entry_price :: real
  exit_price :: real
  pnl :: real
  pnl_percent :: real
  entry_time :: "nat option"
  exit_time :: "nat option"
  t_is_paper :: bool
  t_status :: string

text \<open>
  The executor object. \<open>trades\<close> is a Python dict, whose iteration order is the
  insertion order, so it is an association list; \<open>exchange\<close> is \<open>None\<close> or the
  name of the connected exchange class.
\<close>

record OrderExecutor =
  exchange_name :: string
  paper_mode :: bool
  exchange :: "string option"
  orders :: "Order list"
  trades :: "(string \<times> Trade) list"
  order_counter :: nat
  trade_counter :: nat
  paper_balance :: "string \<rightharpoonup> real"

section \<open>Strategy engine (core/strategy.py)\<close>

record Position =
  p_symbol :: string
  p_entry_price :: real
  p_quantity :: real
  opened_at :: nat

record TriggerConfig =
  buy_rsi_below :: real
  buy_dip_percent :: real
  buy_volume_spike :: real
  buy_enabled :: bool
  sell_rsi_above :: real
  sell_rise_percent :: real
  sell_stop_loss :: real
  sell_take_profit :: real
  sell_enabled :: bool

record TradingStrategy =
  triggers :: TriggerConfig
  positions :: "(string \<times> Position) list"

record Indicators =
  ind_price :: real
  ind_rsi :: real
  ind_dip_percent :: real
  ind_volume_spike :: real

text \<open>
  Modelled from the spec: \<open>get_position\<close> of core/strategy.py, which is not among the
  sources. Spec 4.1: the Position of the symbol, or none.
\<close>

definition get_position :: "TradingStrategy \<Rightarrow> string \<Rightarrow> Position option" where
  "get_position st symb = map_of (positions st) symb"

text \<open>
  Modelled from the spec: \<open>can_open_position\<close> of core/strategy.py, which is not among
  the sources. Spec 4.1: true iff the symbol has no existing open Position and the count
  of all open Positions is below the configured maximum and the count of open Positions
  for that symbol is below the per-symbol maximum.
\<close>

definition can_open_position :: "TradingStrategy \<Rightarrow> string \<Rightarrow> bool" where
  "can_open_position st symb =
     (get_position st symb = None
      \<and> length (positions st) < MAX_OPEN_POSITIONS
      \<and> length (filter (\<lambda>kp. fst kp = symb) (positions st)) < MAX_POSITION_PER_COIN)"

text \<open>
  Modelled from the spec: \<open>add_position\<close> of core/strategy.py, which is not among the
  sources. Spec 4.1: creates and stores a Position; the capacity check is left to the
  caller.
\<close>

definition add_position :: "TradingStrategy \<Rightarrow> nat \<Rightarrow> string \<Rightarrow> real \<Rightarrow> real \<Rightarrow> TradingStrategy" where
  "add_position st now symb pr qty =
     st\<lparr>positions := AList.update symb
           \<lparr>p_symbol = symb, p_entry_price = pr, p_quantity = qty, opened_at = now\<rparr>
           (positions st)\<rparr>"

text \<open>
  Modelled from the spec: \<open>close_position\<close> of core/strategy.py, which is not among the
  sources. Spec 4.1: removes the Position for the symbol; no-op if absent.
\<close>

definition close_position :: "TradingStrategy \<Rightarrow> string \<Rightarrow> TradingStrategy" where
  "close_position st symb = st\<lparr>positions := AList.delete symb (positions st)\<rparr>"

text \<open>\<open>calculate_rise_from_entry\<close> of src/core/indicators.py.\<close>

definition calculate_rise_from_entry :: "real \<Rightarrow> real \<Rightarrow> real" where
  "calculate_rise_from_entry current_price entry =
     (if entry \<le> 0 then 0 else ((current_price - entry) / entry) * 100)"

text \<open>
  Modelled from the spec: the buy conditions of \<open>evaluate\<close> (core/strategy.py, not among
  the sources). Spec 4.1: \<open>rsi \<le> rsi_below\<close>, \<open>dip_percent \<ge> dip_percent_threshold\<close>,
  \<open>volume_spike \<ge> volume_spike_threshold\<close>; the reasons record which conditions
  matched. The spec does not give the text of a reason: the model names the condition.
\<close>

definition buy_reasons :: "TriggerConfig \<Rightarrow> Indicators \<Rightarrow> string list" where
  "buy_reasons tc ind =
     (if ind_rsi ind \<le> buy_rsi_below tc then [''rsi''] else [])
     @ (if ind_dip_percent ind \<ge> buy_dip_percent tc then [''dip_percent''] else [])
     @ (if ind_volume_spike ind \<ge> buy_volume_spike tc then [''volume_spike''] else [])"

text \<open>
  Modelled from the spec: the sell conditions of \<open>evaluate\<close> (core/strategy.py, not among
  the sources). Spec 4.1: \<open>rsi \<ge> rsi_above\<close>, rise-from-entry \<open>\<ge> rise_percent\<close>,
  drawdown-from-entry \<open>\<ge> stop_loss\<close>, profit-from-entry \<open>\<ge> take_profit\<close>; every
  condition that fired is recorded.
\<close>

definition sell_reasons :: "TriggerConfig \<Rightarrow> Indicators \<Rightarrow> Position \<Rightarrow> string list" where
  "sell_reasons tc ind pos =
     (let change = calculate_rise_from_entry (ind_price ind) (p_entry_price pos) in
      (if ind_rsi ind \<ge> sell_rsi_above tc then [''rsi''] else [])
      @ (if change \<ge> sell_rise_percent tc then [''rise_percent''] else [])
      @ (if - change \<ge> sell_stop_loss tc then [''stop_loss''] else [])
      @ (if change \<ge> sell_take_profit tc then [''take_profit''] else []))"

text \<open>
  Modelled from the spec: \<open>evaluate\<close> of core/strategy.py, which is not among the
  sources. Spec 4.1: the buy evaluation is attempted only if the buy triggers are
  enabled, no position is open for the symbol and capacity is available, and fires only
  if all three buy conditions hold; the sell evaluation is attempted only if the sell
  triggers are enabled and a position is open, and fires if any sell condition holds;
  otherwise HOLD with empty reasons.
\<close>

definition buy_conditions :: "TriggerConfig \<Rightarrow> Indicators \<Rightarrow> bool" where
  "buy_conditions tc ind =
     (ind_rsi ind \<le> buy_rsi_below tc
      \<and> ind_dip_percent ind \<ge> buy_dip_percent tc
      \<and> ind_volume_spike ind \<ge> buy_volume_spike tc)"

definition evaluate :: "TradingStrategy \<Rightarrow> string \<Rightarrow> Indicators \<Rightarrow> TradingSignal" where
  "evaluate st symb ind =
     (let tc = triggers st;
          hold = \<lparr>signal_type = HOLD, symbol = symb, price = ind_price ind, reasons = []\<rparr>
      in case get_position st symb of
           None \<Rightarrow>
             if buy_enabled tc \<and> can_open_position st symb \<and> buy_conditions tc ind
             then \<lparr>signal_type = BUY, symbol = symb, price = ind_price ind,
                   reasons = buy_reasons tc ind\<rparr>
             else hold
         | Some pos \<Rightarrow>
             if sell_enabled tc \<and> sell_reasons tc ind pos \<noteq> []
             then \<lparr>signal_type = SELL, symbol = symb, price = ind_price ind,
                   reasons = sell_reasons tc ind pos\<rparr>
             else hold)"

text \<open>\<open>DEFAULT_BUY_TRIGGERS\<close> and \<open>DEFAULT_SELL_TRIGGERS\<close> of src/config/settings.py.\<close>

definition DEFAULT_TRIGGERS :: TriggerConfig where
  "DEFAULT_TRIGGERS =
     \<lparr>buy_rsi_below = 30, buy_dip_percent = 5, buy_volume_spike = 1.5, buy_enabled = True,
      sell_rsi_above = 70, sell_rise_percent = 10, sell_stop_loss = 5,
      sell_take_profit = 15, sell_enabled = True\<rparr>"

section \<open>Order executor (src/core/executor.py)\<close>

text \<open>The executor singleton and the strategy singleton together.\<close>

record world =
  executor :: OrderExecutor
  strategy :: TradingStrategy

text \<open>The decimal digits of a counter, as the f-strings of the source print it.\<close>

function string_of_nat :: "nat \<Rightarrow> string" where
  "string_of_nat n =
     (if n < 10 then [''0123456789'' ! n]
      else string_of_nat (n div 10) @ [''0123456789'' ! (n mod 10)])"
  by pat_completeness auto
termination
  by (relation "measure id") auto

declare string_of_nat.simps [simp del]

text \<open>
  What the Exchange Adapter answers to a market order: it raises, or it returns a
  result dict with \<open>id\<close> and \<open>status\<close> and, optionally, \<open>average\<close> and the cost of
  \<open>fee\<close> (spec 6: \<open>{id, status, average_price, fee}\<close>).
\<close>

record exchange_result =
  res_id :: string
  res_status :: string
  res_average :: "real option"
  res_fee_cost :: "real option"

datatype exchange_reply = Raises | Returns exchange_result

text \<open>\<open>self.paper_balance.get('USDT', 0)\<close>.\<close>

definition balance_get :: "(string \<rightharpoonup> real) \<Rightarrow> string \<Rightarrow> real" where
  "balance_get b cur = (case b cur of None \<Rightarrow> 0 | Some v \<Rightarrow> v)"

definition paper_buy :: "world \<Rightarrow> nat \<Rightarrow> string \<Rightarrow> real \<Rightarrow> real \<Rightarrow> TradingSignal
    \<Rightarrow> py_error + (Order option \<times> world)" where
  "paper_buy w now symb quantity pr signal =
     (let ex = executor w; cost = quantity * pr in
      if balance_get (paper_balance ex) ''USDT'' < cost then Inr (None, w)
      else case paper_balance ex ''USDT'' of
        None \<Rightarrow> Inl KeyError
      | Some bal \<Rightarrow>
          let oc = order_counter ex + 1;
              order = \<lparr>order_id = ''PAPER-'' @ string_of_nat oc, o_symbol = symb,
                       o_side = ''buy'', order_type = ''market'', o_quantity = quantity,
                       o_price = pr, o_status = FILLED, timestamp = now,
                       filled_price = pr, fee = cost * 0.001, o_is_paper = True\<rparr>;
              tc = trade_counter ex + 1;
              trade = \<lparr>trade_id = ''TRADE-'' @ string_of_nat tc, t_symbol = symb,
                       t_side = ''long'', t_quantity = quantity, entry_price = pr,
                       exit_price = 0, pnl = 0, pnl_percent = 0, entry_time = Some now,
                       exit_time = None, t_is_paper = True, t_status = ''open''\<rparr>;
              ex' = ex\<lparr>paper_balance := (paper_balance ex)(''USDT'' \<mapsto> bal - cost),
                       order_counter := oc,
                       orders := orders ex @ [order],
                       trade_counter := tc,
                       trades := AList.update (trade_id trade) trade (trades ex)\<rparr>
          in Inr (Some order,
                  w\<lparr>executor := ex',
                    strategy := add_position (strategy w) now symb pr quantity\<rparr>))"

definition live_buy :: "world \<Rightarrow> nat \<Rightarrow> exchange_reply \<Rightarrow> string \<Rightarrow> real \<Rightarrow> real
    \<Rightarrow> TradingSignal \<Rightarrow> py_error + (Order option \<times> world)" where
  "live_buy w now reply symb quantity pr signal =
     (let ex = executor w in
      if exchange ex = None then Inr (None, w)
      else case reply of
        Raises \<Rightarrow> Inr (None, w)
      | Returns result \<Rightarrow>
          let order = \<lparr>order_id = res_id result, o_symbol = symb, o_side = ''buy'',
                       order_type = ''market'', o_quantity = quantity, o_price = pr,
                       o_status = (if res_status result = ''closed'' then FILLED else PENDING),
                       timestamp = now,
                       filled_price = (case res_average result of None \<Rightarrow> pr | Some a \<Rightarrow> a),
                       fee = (case res_fee_cost result of None \<Rightarrow> 0 | Some c \<Rightarrow> c),
                       o_is_paper = False\<rparr>;
              tc = trade_counter ex + 1;
              trade = \<lparr>trade_id = ''TRADE-'' @ string_of_nat tc, t_symbol = symb,
                       t_side = ''long'', t_quantity = quantity,
                       entry_price = filled_price order,
                       exit_price = 0, pnl = 0, pnl_percent = 0, entry_time = Some now,
                       exit_time = None, t_is_paper = False, t_status = ''open''\<rparr>;
              ex' = ex\<lparr>orders := orders ex @ [order],
                       trade_counter := tc,
                       trades := AList.update (trade_id trade) trade (trades ex)\<rparr>
          in Inr (Some order,
                  w\<lparr>executor := ex',
                    strategy := add_position (strategy w) now symb (filled_price order) quantity\<rparr>))"

definition execute_buy :: "world \<Rightarrow> nat \<Rightarrow> exchange_reply \<Rightarrow> TradingSignal \<Rightarrow> real
    \<Rightarrow> py_error + (Order option \<times> world)" where
  "execute_buy w now reply signal amount_usdt =
     (let symb = symbol signal; pr = price signal in
      if pr \<le> 0 then Inr (None, w)
      else let quantity = amount_usdt / pr in
        if \<not> can_open_position (strategy w) symb then Inr (None, w)
        else if paper_mode (executor w) then paper_buy w now symb quantity pr signal
        else live_buy w now reply symb quantity pr signal)"

text \<open>
  The loop over \<open>self.trades.values()\<close> of \<open>_paper_sell\<close> and \<open>_live_sell\<close>: the first
  open trade of the symbol is closed, and the loop breaks.
\<close>

fun close_first_open_trade :: "string \<Rightarrow> real \<Rightarrow> nat \<Rightarrow> real \<Rightarrow> real
    \<Rightarrow> (string \<times> Trade) list \<Rightarrow> (string \<times> Trade) list" where
  "close_first_open_trade symb pr now pnl_v pnl_pct [] = []"
| "close_first_open_trade symb pr now pnl_v pnl_pct ((k, t) # ts) =
     (if t_symbol t = symb \<and> t_status t = ''open''
      then (k, t\<lparr>exit_price := pr, exit_time := Some now, pnl := pnl_v,
                 pnl_percent := pnl_pct, t_status := ''closed''\<rparr>) # ts
      else (k, t) # close_first_open_trade symb pr now pnl_v pnl_pct ts)"

definition paper_sell :: "world \<Rightarrow> nat \<Rightarrow> string \<Rightarrow> real \<Rightarrow> real \<Rightarrow> real \<Rightarrow> TradingSignal
    \<Rightarrow> py_error + (Order option \<times> world)" where
  "paper_sell w now symb quantity pr entry signal =
     (let ex = executor w;
          proceeds = quantity * pr;
          cost = quantity * entry;
          pnl_v = proceeds - cost
      in if cost = 0 then Inl ZeroDivisionError
      else let pnl_pct = (pnl_v / cost) * 100 in
        case paper_balance ex ''USDT'' of
          None \<Rightarrow> Inl KeyError
        | Some bal \<Rightarrow>
            let oc = order_counter ex + 1;
                order = \<lparr>order_id = ''PAPER-'' @ string_of_nat oc, o_symbol = symb,
                         o_side = ''sell'', order_type = ''market'', o_quantity = quantity,
                         o_price = pr, o_status = FILLED, timestamp = now,
                         filled_price = pr, fee = proceeds * 0.001, o_is_paper = True\<rparr>;
                ex' = ex\<lparr>paper_balance := (paper_balance ex)(''USDT'' \<mapsto> bal + proceeds),
                         order_counter := oc,
                         orders := orders ex @ [order],
                         trades := close_first_open_trade symb pr now pnl_v pnl_pct (trades ex)\<rparr>
            in Inr (Some order,
                    w\<lparr>executor := ex', strategy := close_position (strategy w) symb\<rparr>))"

definition live_sell :: "world \<Rightarrow> nat \<Rightarrow> exchange_reply \<Rightarrow> string \<Rightarrow> real \<Rightarrow> real \<Rightarrow> real
    \<Rightarrow> TradingSignal \<Rightarrow> py_error + (Order option \<times> world)" where
  "live_sell w now reply symb quantity pr entry signal =
     (let ex = executor w in
      if exchange ex = None then Inr (None, w)
      else case reply of
        Raises \<Rightarrow> Inr (None, w)
      | Returns result \<Rightarrow>
          let filled = (case res_average result of None \<Rightarrow> pr | Some a \<Rightarrow> a);
              proceeds = quantity * filled;
              cost = quantity * entry;
              pnl_v = proceeds - cost
          in if cost = 0 then Inr (None, w)
          else let pnl_pct = (pnl_v / cost) * 100;
                order = \<lparr>order_id = res_id result, o_symbol = symb, o_side = ''sell'',
                         order_type = ''market'', o_quantity = quantity, o_price = pr,
                         o_status = (if res_status result = ''closed'' then FILLED else PENDING),
                         timestamp = now, filled_price = filled,
                         fee = (case res_fee_cost result of None \<Rightarrow> 0 | Some c \<Rightarrow> c),
                         o_is_paper = False\<rparr>;
                ex' = ex\<lparr>orders := orders ex @ [order],
                         trades := close_first_open_trade symb filled now pnl_v pnl_pct (trades ex)\<rparr>
            in Inr (Some order,
                    w\<lparr>executor := ex', strategy := close_position (strategy w) symb\<rparr>))"

definition execute_sell :: "world \<Rightarrow> nat \<Rightarrow> exchange_reply \<Rightarrow> TradingSignal
    \<Rightarrow> py_error + (Order option \<times> world)" where
  "execute_sell w now reply signal =
     (let symb = symbol signal; pr = price signal in
      case get_position (strategy w) symb of
        None \<Rightarrow> Inr (None, w)
      | Some position \<Rightarrow>
          if paper_mode (executor w)
          then paper_sell w now symb (p_quantity position) pr (p_entry_price position) signal
          else live_sell w now reply symb (p_quantity position) pr (p_entry_price position) signal)"

text \<open>
  \<open>execute_signal\<close>. The amount is \<open>None\<close> when the caller gives none;
  \<open>amount_usdt or settings.DEFAULT_TRADE_AMOUNT_USDT\<close> takes the default for \<open>None\<close>
  and for \<open>0\<close>. An exception that leaves the call is \<open>Inl\<close>; every one of them is
  raised before the first mutation.
\<close>

definition execute_signal :: "world \<Rightarrow> nat \<Rightarrow> exchange_reply \<Rightarrow> TradingSignal \<Rightarrow> real option
    \<Rightarrow> py_error + (Order option \<times> world)" where
  "execute_signal w now reply signal amount_usdt =
     (if signal_type signal = HOLD then Inr (None, w)
      else let amount = (case amount_usdt of
                           None \<Rightarrow> DEFAULT_TRADE_AMOUNT_USDT
                         | Some a \<Rightarrow> if a = 0 then DEFAULT_TRADE_AMOUNT_USDT else a)
        in if amount < MIN_TRADE_AMOUNT_USDT then Inr (None, w)
        else let amount = (if amount > MAX_TRADE_AMOUNT_USDT then MAX_TRADE_AMOUNT_USDT
                           else amount)
          in if signal_type signal = BUY then execute_buy w now reply signal amount
          else if signal_type signal = SELL then execute_sell w now reply signal
          else Inr (None, w))"

text \<open>
  The amount that \<open>execute_signal\<close> works with: the default for \<open>None\<close> and \<open>0\<close>,
  and the maximum for anything above it. It is used to state the theorems only.
\<close>

definition requested_amount :: "real option \<Rightarrow> real" where
  "requested_amount amount_usdt =
     (case amount_usdt of
        None \<Rightarrow> DEFAULT_TRADE_AMOUNT_USDT
      | Some a \<Rightarrow> if a = 0 then DEFAULT_TRADE_AMOUNT_USDT else a)"

definition effective_amount :: "real option \<Rightarrow> real" where
  "effective_amount amount_usdt =
     (if requested_amount amount_usdt > MAX_TRADE_AMOUNT_USDT then MAX_TRADE_AMOUNT_USDT
      else requested_amount amount_usdt)"

text \<open>What a call returned, and the state it left: an exception leaves the state as it was.\<close>

definition returned_order :: "py_error + (Order option \<times> world) \<Rightarrow> Order option" where
  "returned_order r = (case r of Inl e \<Rightarrow> None | Inr ow \<Rightarrow> fst ow)"

definition world_after :: "world \<Rightarrow> py_error + (Order option \<times> world) \<Rightarrow> world" where
  "world_after w r = (case r of Inl e \<Rightarrow> w | Inr ow \<Rightarrow> snd ow)"

definition get_open_trades :: "OrderExecutor \<Rightarrow> Trade list" where
  "get_open_trades ex = filter (\<lambda>t. t_status t = ''open'') (map snd (trades ex))"

definition get_closed_trades :: "OrderExecutor \<Rightarrow> Trade list" where
  "get_closed_trades ex = filter (\<lambda>t. t_status t = ''closed'') (map snd (trades ex))"

subsection \<open>The ledger file and the construction of the executor\<close>

text \<open>
  What \<open>_save_trade_history\<close> dumps: the trades, the orders and the paper balance. The
  file is outside the state of the model: whether the write succeeds or fails, no field
  of the executor changes. A ledger that is read back may lack the \<open>paper_balance\<close>
  key.
\<close>

record ledger_data =
  l_trades :: "Trade list"
  l_orders :: "Order list"
  l_paper_balance :: "(string \<rightharpoonup> real) option"

definition save_trade_history :: "OrderExecutor \<Rightarrow> ledger_data" where
  "save_trade_history ex =
     \<lparr>l_trades = map snd (trades ex), l_orders = orders ex,
      l_paper_balance = Some (paper_balance ex)\<rparr>"

text \<open>
  The file at start-up: absent, present but unreadable (opening it, parsing it or
  reading the key raises, which the source catches), or present with a JSON object.
\<close>

datatype ledger_file = Absent | Unreadable | Document ledger_data

definition load_trade_history :: "ledger_file \<Rightarrow> OrderExecutor \<Rightarrow> OrderExecutor" where
  "load_trade_history file ex =
     (case file of
        Absent \<Rightarrow> ex
      | Unreadable \<Rightarrow> ex
      | Document d \<Rightarrow>
          ex\<lparr>paper_balance :=
               (case l_paper_balance d of
                  None \<Rightarrow> [''USDT'' \<mapsto> 10000]
                | Some b \<Rightarrow> b)\<rparr>)"

text \<open>
  The ccxt library at start-up: not installed, installed but the exchange class cannot
  be built (the source catches the exception), or connected.
\<close>

datatype ccxt_env = NotInstalled | ConstructorRaises | Connected

definition init_exchange :: "ccxt_env \<Rightarrow> OrderExecutor \<Rightarrow> OrderExecutor" where
  "init_exchange env ex =
     (case env of
        NotInstalled \<Rightarrow> ex\<lparr>paper_mode := True\<rparr>
      | ConstructorRaises \<Rightarrow> ex\<lparr>paper_mode := True\<rparr>
      | Connected \<Rightarrow> ex\<lparr>exchange := Some (exchange_name ex)\<rparr>)"

text \<open>
  \<open>OrderExecutor.__init__\<close>. \<open>default_exchange\<close> is \<open>settings.DEFAULT_EXCHANGE\<close>, which
  the settings module reads from the environment.
\<close>

definition init :: "string \<Rightarrow> ccxt_env \<Rightarrow> ledger_file \<Rightarrow> string option \<Rightarrow> bool option
    \<Rightarrow> OrderExecutor" where
  "init default_exchange env file exchange_name_arg paper_mode_arg =
     (let ex = \<lparr>exchange_name = (case exchange_name_arg of
                                     None \<Rightarrow> default_exchange
                                   | Some n \<Rightarrow> if n = [] then default_exchange else n),
                 paper_mode = (case paper_mode_arg of None \<Rightarrow> PAPER_TRADING | Some b \<Rightarrow> b),
                 exchange = None,
                 orders = [],
                 trades = [],
                 order_counter = 0,
                 trade_counter = 0,
                 paper_balance = [''USDT'' \<mapsto> 10000]\<rparr>;
          ex = (if \<not> paper_mode ex then init_exchange env ex else ex)
      in load_trade_history file ex)"

text \<open>A freshly started bot in paper mode: no ledger file, the default triggers, no position.\<close>

definition fresh_world :: world where
  "fresh_world =
     \<lparr>executor = init ''mexc'' NotInstalled Absent None None,
      strategy = \<lparr>triggers = DEFAULT_TRIGGERS, positions = []\<rparr>\<rparr>"

text \<open>A bot in live mode, connected to its exchange.\<close>

definition live_world :: world where
  "live_world =
     \<lparr>executor = init ''mexc'' Connected Absent None (Some False),
      strategy = \<lparr>triggers = DEFAULT_TRIGGERS, positions = []\<rparr>\<rparr>"

text \<open>
  A paper bot that holds 10 units of \<open>X\<close> bought at 10 out of a balance of 10000.
\<close>

definition holding_world :: world where
  "holding_world =
     \<lparr>executor =
        \<lparr>exchange_name = ''mexc'', paper_mode = True, exchange = None,
         orders = [\<lparr>order_id = ''PAPER-1'', o_symbol = ''X'', o_side = ''buy'',
                    order_type = ''market'', o_quantity = 10, o_price = 10,
                    o_status = FILLED, timestamp = 7, filled_price = 10, fee = 0.1,
                    o_is_paper = True\<rparr>],
         trades = [(''TRADE-1'',
                    \<lparr>trade_id = ''TRADE-1'', t_symbol = ''X'', t_side = ''long'',
                     t_quantity = 10, entry_price = 10, exit_price = 0, pnl = 0,
                     pnl_percent = 0, entry_time = Some 7, exit_time = None,
                     t_is_paper = True, t_status = ''open''\<rparr>)],
         order_counter = 1, trade_counter = 1,
         paper_balance = [''USDT'' \<mapsto> 9900]\<rparr>,
      strategy =
        \<lparr>triggers = DEFAULT_TRIGGERS,
         positions = [(''X'', \<lparr>p_symbol = ''X'', p_entry_price = 10, p_quantity = 10,
                              opened_at = 7\<rparr>)]\<rparr>\<rparr>"

text \<open>A fresh paper bot whose balance was reset to 5.\<close>

definition poor_world :: world where
  "poor_world =
     fresh_world\<lparr>executor := (executor fresh_world)\<lparr>paper_balance := [''USDT'' \<mapsto> 5]\<rparr>\<rparr>"

text \<open>The test of the trade loop: the trade is an open trade of the symbol.\<close>

definition is_open_for :: "string \<Rightarrow> Trade \<Rightarrow> bool" where
  "is_open_for symb t = (t_symbol t = symb \<and> t_status t = ''open'')"

text \<open>The holding bot after it sold its position at the entry price of 10.\<close>

definition sold_world :: world where
  "sold_world =
     world_after holding_world
       (execute_signal holding_world 9 Raises
          \<lparr>signal_type = SELL, symbol = ''X'', price = 10, reasons = []\<rparr> (Some 100))"

section \<open>Evaluation rules\<close>

lemmas settings_defs = MIN_TRADE_AMOUNT_USDT_def MAX_TRADE_AMOUNT_USDT_def
  DEFAULT_TRADE_AMOUNT_USDT_def PAPER_TRADING_def MAX_OPEN_POSITIONS_def
  MAX_POSITION_PER_COIN_def

lemmas run_defs = execute_signal_def execute_buy_def execute_sell_def paper_buy_def
  paper_sell_def live_buy_def live_sell_def can_open_position_def get_position_def
  add_position_def close_position_def balance_get_def init_def load_trade_history_def
  init_exchange_def Let_def

lemma string_of_nat_1: "string_of_nat (Suc 0) = ''1''"
  by (simp add: string_of_nat.simps[of "Suc 0"])

lemma string_of_nat_2: "string_of_nat (Suc (Suc 0)) = ''2''"
  by (simp add: string_of_nat.simps[of "Suc (Suc 0)"])

lemma fresh_world_paper: "paper_mode (executor fresh_world)"
  by (simp add: fresh_world_def init_def load_trade_history_def PAPER_TRADING_def Let_def)

lemma fresh_world_can_open: "can_open_position (strategy fresh_world) symb"
  by (simp add: fresh_world_def can_open_position_def get_position_def settings_defs)

lemma execute_signal_unfold:
  "execute_signal w now reply signal amount_usdt =
     (if signal_type signal = HOLD then Inr (None, w)
      else if requested_amount amount_usdt < MIN_TRADE_AMOUNT_USDT then Inr (None, w)
      else if signal_type signal = BUY
        then execute_buy w now reply signal (effective_amount amount_usdt)
      else execute_sell w now reply signal)"
  by (cases "signal_type signal")
     (simp_all add: execute_signal_def requested_amount_def effective_amount_def Let_def)

section \<open>The strategy engine\<close>

lemma map_of_None_filter:
  "map_of ps k = None \<Longrightarrow> filter (\<lambda>kp. fst kp = k) ps = []"
  by (induction ps) (auto split: if_splits)

text \<open>
  C2. \<open>evaluate\<close> emits BUY if and only if the buy triggers are enabled, no position is
  open for the symbol, position capacity is available and the three conditions on RSI,
  dip and volume all hold; with no position open, a snapshot that misses one of the
  three conditions yields HOLD.
\<close>

theorem evaluate_buy_iff:
  "(signal_type (evaluate st symb ind) = BUY
      \<longleftrightarrow> buy_enabled (triggers st)
          \<and> get_position st symb = None
          \<and> length (positions st) < MAX_OPEN_POSITIONS
          \<and> ind_rsi ind \<le> buy_rsi_below (triggers st)
          \<and> ind_dip_percent ind \<ge> buy_dip_percent (triggers st)
          \<and> ind_volume_spike ind \<ge> buy_volume_spike (triggers st))
   \<and> (get_position st symb = None
        \<and> \<not> (ind_rsi ind \<le> buy_rsi_below (triggers st)
              \<and> ind_dip_percent ind \<ge> buy_dip_percent (triggers st)
              \<and> ind_volume_spike ind \<ge> buy_volume_spike (triggers st))
      \<longrightarrow> signal_type (evaluate st symb ind) = HOLD)"
proof (cases "get_position st symb")
  case None
  then have "filter (\<lambda>kp. fst kp = symb) (positions st) = []"
    by (simp add: get_position_def map_of_None_filter)
  then have cap: "can_open_position st symb \<longleftrightarrow> length (positions st) < MAX_OPEN_POSITIONS"
    using None by (simp add: can_open_position_def MAX_POSITION_PER_COIN_def)
  show ?thesis
    using None cap by (auto simp: evaluate_def Let_def buy_conditions_def)
next
  case (Some pos)
  then show ?thesis
    by (simp add: evaluate_def Let_def)
qed

text \<open>
  The snapshot of the witness meets the RSI and dip conditions of the default triggers
  and misses the volume condition.
\<close>

theorem evaluate_buy_iff_witness:
  "get_position (strategy fresh_world) ''X'' = None
   \<and> (25::real) \<le> buy_rsi_below (triggers (strategy fresh_world))
   \<and> (6::real) \<ge> buy_dip_percent (triggers (strategy fresh_world))
   \<and> \<not> (1::real) \<ge> buy_volume_spike (triggers (strategy fresh_world))
   \<and> signal_type (evaluate (strategy fresh_world) ''X''
        \<lparr>ind_price = 10, ind_rsi = 25, ind_dip_percent = 6, ind_volume_spike = 1\<rparr>) = HOLD"
  using evaluate_buy_iff [of "strategy fresh_world" "''X''"
      "\<lparr>ind_price = 10, ind_rsi = 25, ind_dip_percent = 6, ind_volume_spike = 1\<rparr>"]
  by (simp add: fresh_world_def get_position_def DEFAULT_TRIGGERS_def)

section \<open>Rejections and amount validation\<close>

text \<open>
  C6. A BUY signal in paper mode whose price is not positive, or whose symbol cannot
  open a position, or whose cost \<open>(amount / price) * price\<close> exceeds the paper USDT
  balance, returns no order and leaves the whole state as it was.
\<close>

theorem paper_buy_rejection_atomic:
  assumes "signal_type signal = BUY" and "paper_mode (executor w)"
    and "price signal \<le> 0
         \<or> \<not> can_open_position (strategy w) (symbol signal)
         \<or> balance_get (paper_balance (executor w)) ''USDT''
             < (effective_amount amount_usdt / price signal) * price signal"
  shows "execute_signal w now reply signal amount_usdt = Inr (None, w)"
  using assms
  by (auto simp: execute_signal_unfold execute_buy_def paper_buy_def Let_def)

text \<open>The witness is the scenario of the spec: a balance of 5 and a buy that costs 100.\<close>

theorem paper_buy_rejection_atomic_witness:
  "paper_mode (executor poor_world)
   \<and> balance_get (paper_balance (executor poor_world)) ''USDT''
       < (effective_amount (Some 100) / 10) * 10
   \<and> execute_signal poor_world 7 Raises
        \<lparr>signal_type = BUY, symbol = ''X'', price = 10, reasons = []\<rparr> (Some 100)
       = Inr (None, poor_world)"
  using paper_buy_rejection_atomic [of
      "\<lparr>signal_type = BUY, symbol = ''X'', price = 10, reasons = []\<rparr>" poor_world
      "Some 100" 7 Raises]
  by (simp add: poor_world_def fresh_world_def init_def load_trade_history_def Let_def
      balance_get_def effective_amount_def requested_amount_def settings_defs)

text \<open>
  C8. In live mode, when the call of the Exchange Adapter raises, a BUY or SELL signal
  returns no order and the orders, the trades, the balance and the positions are what
  they were before the call.
\<close>

theorem live_adapter_failure:
  "\<not> paper_mode (executor w) \<Longrightarrow> signal_type signal = BUY \<or> signal_type signal = SELL
   \<Longrightarrow> execute_signal w now Raises signal amount_usdt = Inr (None, w)"
  by (auto simp: execute_signal_def execute_buy_def execute_sell_def live_buy_def live_sell_def
      Let_def split: option.splits)

theorem live_adapter_failure_witness:
  "\<not> paper_mode (executor live_world)
   \<and> exchange (executor live_world) = Some ''mexc''
   \<and> execute_signal live_world 7 Raises
        \<lparr>signal_type = BUY, symbol = ''X'', price = 10, reasons = []\<rparr> (Some 100)
       = Inr (None, live_world)"
  using live_adapter_failure [of live_world
      "\<lparr>signal_type = BUY, symbol = ''X'', price = 10, reasons = []\<rparr>" 7 "Some 100"]
  by (simp add: live_world_def init_def init_exchange_def load_trade_history_def Let_def)

text \<open>
  C10. A non-HOLD signal with a requested amount of \<open>None\<close> or \<open>0\<close> is not rejected by
  the minimum check: the default amount, which lies within the bounds, replaces it, and
  the buy or sell path runs with the default.
\<close>

theorem zero_amount_default:
  "signal_type signal \<noteq> HOLD \<Longrightarrow> amount_usdt = None \<or> amount_usdt = Some 0 \<Longrightarrow>
   MIN_TRADE_AMOUNT_USDT \<le> DEFAULT_TRADE_AMOUNT_USDT
   \<and> DEFAULT_TRADE_AMOUNT_USDT \<le> MAX_TRADE_AMOUNT_USDT
   \<and> execute_signal w now reply signal amount_usdt =
       (if signal_type signal = BUY
        then execute_buy w now reply signal DEFAULT_TRADE_AMOUNT_USDT
        else execute_sell w now reply signal)"
  by (cases "signal_type signal")
     (auto simp: execute_signal_def Let_def MIN_TRADE_AMOUNT_USDT_def
       DEFAULT_TRADE_AMOUNT_USDT_def MAX_TRADE_AMOUNT_USDT_def)

theorem zero_amount_default_witness:
  "execute_signal fresh_world 7 Raises
      \<lparr>signal_type = BUY, symbol = ''X'', price = 10, reasons = []\<rparr> (Some 0)
     = execute_buy fresh_world 7 Raises
         \<lparr>signal_type = BUY, symbol = ''X'', price = 10, reasons = []\<rparr>
         DEFAULT_TRADE_AMOUNT_USDT
   \<and> returned_order (execute_buy fresh_world 7 Raises
         \<lparr>signal_type = BUY, symbol = ''X'', price = 10, reasons = []\<rparr>
         DEFAULT_TRADE_AMOUNT_USDT) \<noteq> None"
  using zero_amount_default [of
      "\<lparr>signal_type = BUY, symbol = ''X'', price = 10, reasons = []\<rparr>" "Some 0"
      fresh_world 7 Raises]
  by (simp add: run_defs settings_defs fresh_world_def returned_order_def)

section \<open>Construction of the executor\<close>

text \<open>
  C9. When the ledger file exists and parses, the construction of the executor takes
  the paper balance from it and nothing else: the orders and the trades are empty and
  both counters are 0, whatever trades and orders the file holds, and every other field
  is what it is without a file.
\<close>

theorem load_restores_balance_only:
  "orders (init de env (Document d) en pm) = []
   \<and> trades (init de env (Document d) en pm) = []
   \<and> order_counter (init de env (Document d) en pm) = 0
   \<and> trade_counter (init de env (Document d) en pm) = 0
   \<and> paper_balance (init de env (Document d) en pm)
       = (case l_paper_balance d of None \<Rightarrow> [''USDT'' \<mapsto> 10000] | Some b \<Rightarrow> b)
   \<and> init de env (Document d) en pm
       = (init de env Absent en pm)
           \<lparr>paper_balance := paper_balance (init de env (Document d) en pm)\<rparr>"
  by (cases env) (simp_all add: init_def load_trade_history_def init_exchange_def Let_def)

text \<open>The ledger that the holding bot writes is read back as its balance alone.\<close>

theorem load_restores_balance_only_witness:
  "l_trades (save_trade_history (executor holding_world)) \<noteq> []
   \<and> l_orders (save_trade_history (executor holding_world)) \<noteq> []
   \<and> trades (init ''mexc'' NotInstalled
        (Document (save_trade_history (executor holding_world))) None None) = []
   \<and> orders (init ''mexc'' NotInstalled
        (Document (save_trade_history (executor holding_world))) None None) = []
   \<and> paper_balance (init ''mexc'' NotInstalled
        (Document (save_trade_history (executor holding_world))) None None) ''USDT''
       = Some 9900"
  using load_restores_balance_only [of "''mexc''" NotInstalled
      "save_trade_history (executor holding_world)" None None]
  by (simp add: save_trade_history_def holding_world_def)

section \<open>The trade loop and the position store\<close>

lemma close_first_open_trade_none:
  "list_all (\<lambda>kt. \<not> is_open_for symb (snd kt)) ts
   \<Longrightarrow> close_first_open_trade symb pr now pv pp ts = ts"
  by (induction ts) (auto simp: is_open_for_def)

lemma close_first_open_trade_first:
  "list_all (\<lambda>kt. \<not> is_open_for symb (snd kt)) pre \<Longrightarrow> is_open_for symb t
   \<Longrightarrow> close_first_open_trade symb pr now pv pp (pre @ (k, t) # post)
       = pre @ (k, t\<lparr>exit_price := pr, exit_time := Some now, pnl := pv,
                     pnl_percent := pp, t_status := ''closed''\<rparr>) # post"
  by (induction pre) (auto simp: is_open_for_def)

lemma close_first_open_trade_update:
  "list_all (\<lambda>kt. \<not> is_open_for symb (snd kt)) ts \<Longrightarrow> is_open_for symb t
   \<Longrightarrow> close_first_open_trade symb pr now pv pp (AList.update k t ts)
       = AList.update k (t\<lparr>exit_price := pr, exit_time := Some now, pnl := pv,
                            pnl_percent := pp, t_status := ''closed''\<rparr>) ts"
  by (induction ts) (auto simp: is_open_for_def)

lemma open_trades_update:
  "filter (\<lambda>t. t_status t = ''open'') (map snd ts) = [] \<Longrightarrow> t_status t = ''open''
   \<Longrightarrow> filter (\<lambda>t. t_status t = ''open'') (map snd (AList.update k t ts)) = [t]"
  by (induction ts) (auto split: if_splits)

lemma delete_update_fresh:
  "map_of ps k = None \<Longrightarrow> AList.delete k (AList.update k v ps) = ps"
  by (simp add: delete_update_same map_of_eq_None_iff)

lemma get_position_closed: "get_position (close_position st symb) symb = None"
  by (simp add: get_position_def close_position_def delete_conv')

section \<open>Accepted signals in paper mode\<close>

lemma paper_buy_accepted:
  assumes "signal_type signal = BUY" and "paper_mode (executor w)"
    and "MIN_TRADE_AMOUNT_USDT \<le> requested_amount amount_usdt"
    and "0 < price signal"
    and "can_open_position (strategy w) (symbol signal)"
    and "paper_balance (executor w) ''USDT'' = Some bal"
    and "effective_amount amount_usdt \<le> bal"
  shows "execute_signal w now reply signal amount_usdt =
     Inr (Some \<lparr>order_id = ''PAPER-'' @ string_of_nat (order_counter (executor w) + 1),
                o_symbol = symbol signal, o_side = ''buy'', order_type = ''market'',
                o_quantity = effective_amount amount_usdt / price signal,
                o_price = price signal, o_status = FILLED, timestamp = now,
                filled_price = price signal,
                fee = effective_amount amount_usdt * 0.001, o_is_paper = True\<rparr>,
          w\<lparr>executor := (executor w)
               \<lparr>paper_balance := (paper_balance (executor w))
                    (''USDT'' \<mapsto> bal - effective_amount amount_usdt),
                order_counter := order_counter (executor w) + 1,
                orders := orders (executor w) @
                  [\<lparr>order_id = ''PAPER-'' @ string_of_nat (order_counter (executor w) + 1),
                    o_symbol = symbol signal, o_side = ''buy'', order_type = ''market'',
                    o_quantity = effective_amount amount_usdt / price signal,
                    o_price = price signal, o_status = FILLED, timestamp = now,
                    filled_price = price signal,
                    fee = effective_amount amount_usdt * 0.001, o_is_paper = True\<rparr>],
                trade_counter := trade_counter (executor w) + 1,
                trades := AList.update
                  (''TRADE-'' @ string_of_nat (trade_counter (executor w) + 1))
                  \<lparr>trade_id = ''TRADE-'' @ string_of_nat (trade_counter (executor w) + 1),
                   t_symbol = symbol signal, t_side = ''long'',
                   t_quantity = effective_amount amount_usdt / price signal,
                   entry_price = price signal, exit_price = 0, pnl = 0, pnl_percent = 0,
                   entry_time = Some now, exit_time = None, t_is_paper = True,
                   t_status = ''open''\<rparr>
                  (trades (executor w))\<rparr>,
            strategy := add_position (strategy w) now (symbol signal) (price signal)
                          (effective_amount amount_usdt / price signal)\<rparr>)"
proof -
  have cost: "effective_amount amount_usdt / price signal * price signal
                = effective_amount amount_usdt"
    using assms(4) by simp
  show ?thesis
    using assms
    by (simp add: execute_signal_unfold execute_buy_def paper_buy_def Let_def cost
        balance_get_def)
qed

lemma paper_sell_accepted:
  assumes "signal_type signal = SELL" and "paper_mode (executor w)"
    and "MIN_TRADE_AMOUNT_USDT \<le> requested_amount amount_usdt"
    and "get_position (strategy w) (symbol signal) = Some pos"
    and "p_quantity pos * p_entry_price pos \<noteq> 0"
    and "paper_balance (executor w) ''USDT'' = Some bal"
  shows "execute_signal w now reply signal amount_usdt =
     Inr (Some \<lparr>order_id = ''PAPER-'' @ string_of_nat (order_counter (executor w) + 1),
                o_symbol = symbol signal, o_side = ''sell'', order_type = ''market'',
                o_quantity = p_quantity pos, o_price = price signal, o_status = FILLED,
                timestamp = now, filled_price = price signal,
                fee = p_quantity pos * price signal * 0.001, o_is_paper = True\<rparr>,
          w\<lparr>executor := (executor w)
               \<lparr>paper_balance := (paper_balance (executor w))
                    (''USDT'' \<mapsto> bal + p_quantity pos * price signal),
                order_counter := order_counter (executor w) + 1,
                orders := orders (executor w) @
                  [\<lparr>order_id = ''PAPER-'' @ string_of_nat (order_counter (executor w) + 1),
                    o_symbol = symbol signal, o_side = ''sell'', order_type = ''market'',
                    o_quantity = p_quantity pos, o_price = price signal,
                    o_status = FILLED, timestamp = now, filled_price = price signal,
                    fee = p_quantity pos * price signal * 0.001, o_is_paper = True\<rparr>],
                trades := close_first_open_trade (symbol signal) (price signal) now
                  (p_quantity pos * price signal - p_quantity pos * p_entry_price pos)
                  ((p_quantity pos * price signal - p_quantity pos * p_entry_price pos)
                     / (p_quantity pos * p_entry_price pos) * 100)
                  (trades (executor w))\<rparr>,
            strategy := close_position (strategy w) (symbol signal)\<rparr>)"
  using assms
  by (simp add: execute_signal_unfold execute_sell_def paper_sell_def Let_def)

text \<open>
  C7, as amended. For a non-HOLD signal, a requested amount other than 0 that is below
  the minimum returns no order and leaves the state as it was; an amount above the
  maximum is not rejected: the call runs the buy or sell path with the maximum, as a
  request for the maximum itself does.
\<close>

theorem amount_validation:
  assumes "signal_type signal \<noteq> HOLD"
  shows "(a \<noteq> 0 \<and> a < MIN_TRADE_AMOUNT_USDT
            \<longrightarrow> execute_signal w now reply signal (Some a) = Inr (None, w))
       \<and> (a > MAX_TRADE_AMOUNT_USDT
            \<longrightarrow> execute_signal w now reply signal (Some a)
                = (if signal_type signal = BUY
                   then execute_buy w now reply signal MAX_TRADE_AMOUNT_USDT
                   else execute_sell w now reply signal)
              \<and> execute_signal w now reply signal (Some a)
                = execute_signal w now reply signal (Some MAX_TRADE_AMOUNT_USDT))"
  using assms
  by (auto simp: execute_signal_unfold requested_amount_def effective_amount_def
      MIN_TRADE_AMOUNT_USDT_def MAX_TRADE_AMOUNT_USDT_def)

theorem amount_validation_witness:
  "(5::real) \<noteq> 0 \<and> 5 < MIN_TRADE_AMOUNT_USDT
   \<and> execute_signal fresh_world 7 Raises
        \<lparr>signal_type = BUY, symbol = ''X'', price = 10, reasons = []\<rparr> (Some 5)
       = Inr (None, fresh_world)
   \<and> (5000::real) > MAX_TRADE_AMOUNT_USDT
   \<and> execute_signal fresh_world 7 Raises
        \<lparr>signal_type = BUY, symbol = ''X'', price = 10, reasons = []\<rparr> (Some 5000)
       = execute_buy fresh_world 7 Raises
        \<lparr>signal_type = BUY, symbol = ''X'', price = 10, reasons = []\<rparr>
        MAX_TRADE_AMOUNT_USDT"
  using amount_validation [of
      "\<lparr>signal_type = BUY, symbol = ''X'', price = 10, reasons = []\<rparr>" 5 fresh_world 7 Raises]
    amount_validation [of
      "\<lparr>signal_type = BUY, symbol = ''X'', price = 10, reasons = []\<rparr>" 5000 fresh_world 7
      Raises]
  by (simp add: MIN_TRADE_AMOUNT_USDT_def MAX_TRADE_AMOUNT_USDT_def)

text \<open>
  C7 as stated fails at the requested amount 0, which is below the minimum of 10: the
  fresh paper bot buys for the default amount of 100.
\<close>

theorem amount_below_minimum_counterexample:
  "(0::real) < MIN_TRADE_AMOUNT_USDT
   \<and> returned_order (execute_signal fresh_world 7 Raises
        \<lparr>signal_type = BUY, symbol = ''X'', price = 10, reasons = []\<rparr> (Some 0))
       = Some (hd (orders (executor holding_world)))
   \<and> world_after fresh_world (execute_signal fresh_world 7 Raises
        \<lparr>signal_type = BUY, symbol = ''X'', price = 10, reasons = []\<rparr> (Some 0))
       = holding_world
   \<and> paper_balance (executor holding_world) ''USDT'' = Some 9900
   \<and> paper_balance (executor fresh_world) ''USDT'' = Some 10000"
  by (simp add: run_defs settings_defs fresh_world_def holding_world_def string_of_nat_1
      returned_order_def world_after_def)

section \<open>The paper scenarios\<close>

text \<open>
  C3. In paper mode with a USDT balance of 10000, no open trade and room for a position
  in \<open>X\<close>, a BUY signal for \<open>X\<close> at price 10 with amount 100 leaves a balance of
  exactly 9900, appends a filled buy order with fee 0.1, and leaves exactly one open
  trade, with entry price 10 and quantity 10.
\<close>

theorem paper_buy_scenario:
  assumes "paper_mode (executor w)"
    and "paper_balance (executor w) ''USDT'' = Some 10000"
    and "can_open_position (strategy w) X"
    and "get_open_trades (executor w) = []"
  shows "\<exists>order w' trade.
     execute_signal w now reply
        \<lparr>signal_type = BUY, symbol = X, price = 10, reasons = rs\<rparr> (Some 100)
       = Inr (Some order, w')
     \<and> paper_balance (executor w') ''USDT'' = Some 9900
     \<and> orders (executor w') = orders (executor w) @ [order]
     \<and> o_side order = ''buy'' \<and> o_status order = FILLED \<and> fee order = 0.1
     \<and> o_quantity order = 10 \<and> o_price order = 10
     \<and> get_open_trades (executor w') = [trade]
     \<and> t_symbol trade = X \<and> entry_price trade = 10 \<and> t_quantity trade = 10
     \<and> get_position (strategy w') X
         = Some \<lparr>p_symbol = X, p_entry_price = 10, p_quantity = 10, opened_at = now\<rparr>"
proof -
  let ?sig = "\<lparr>signal_type = BUY, symbol = X, price = 10, reasons = rs\<rparr>"
  let ?order = "\<lparr>order_id = ''PAPER-'' @ string_of_nat (order_counter (executor w) + 1),
        o_symbol = X, o_side = ''buy'', order_type = ''market'', o_quantity = 10,
        o_price = 10, o_status = FILLED, timestamp = now, filled_price = 10,
        fee = 0.1, o_is_paper = True\<rparr>"
  let ?trade = "\<lparr>trade_id = ''TRADE-'' @ string_of_nat (trade_counter (executor w) + 1),
        t_symbol = X, t_side = ''long'', t_quantity = 10, entry_price = 10,
        exit_price = 0, pnl = 0, pnl_percent = 0, entry_time = Some now,
        exit_time = None, t_is_paper = True, t_status = ''open''\<rparr>"
  let ?w' = "w\<lparr>executor := (executor w)
          \<lparr>paper_balance := (paper_balance (executor w))(''USDT'' \<mapsto> 9900),
           order_counter := order_counter (executor w) + 1,
           orders := orders (executor w) @ [?order],
           trade_counter := trade_counter (executor w) + 1,
           trades := AList.update (trade_id ?trade) ?trade (trades (executor w))\<rparr>,
       strategy := add_position (strategy w) now X 10 10\<rparr>"
  have amt: "requested_amount (Some 100) = 100" "effective_amount (Some 100) = 100"
    by (simp_all add: requested_amount_def effective_amount_def MAX_TRADE_AMOUNT_USDT_def)
  have run: "execute_signal w now reply ?sig (Some 100) = Inr (Some ?order, ?w')"
    using paper_buy_accepted [of ?sig w "Some 100" 10000 now reply] assms
    by (simp add: amt MIN_TRADE_AMOUNT_USDT_def)
  have opn: "filter (\<lambda>t. t_status t = ''open'') (map snd (trades (executor w))) = []"
    using assms(4) by (simp add: get_open_trades_def)
  have trd: "get_open_trades (executor ?w') = [?trade]"
    using open_trades_update [OF opn, of ?trade "trade_id ?trade"]
    by (simp add: get_open_trades_def)
  have pos: "get_position (strategy ?w') X
      = Some \<lparr>p_symbol = X, p_entry_price = 10, p_quantity = 10, opened_at = now\<rparr>"
    by (simp add: get_position_def add_position_def update_conv')
  show ?thesis
    apply (rule exI [of _ ?order])
    apply (rule exI [of _ ?w'])
    apply (rule exI [of _ ?trade])
    apply (simp only: run trd pos)
    apply simp
    done
qed

theorem paper_buy_scenario_witness:
  "paper_mode (executor fresh_world)
   \<and> paper_balance (executor fresh_world) ''USDT'' = Some 10000
   \<and> can_open_position (strategy fresh_world) ''X''
   \<and> get_open_trades (executor fresh_world) = []
   \<and> (\<exists>order w' trade.
       execute_signal fresh_world 7 Raises
          \<lparr>signal_type = BUY, symbol = ''X'', price = 10, reasons = []\<rparr> (Some 100)
         = Inr (Some order, w')
       \<and> paper_balance (executor w') ''USDT'' = Some 9900
       \<and> orders (executor w') = orders (executor fresh_world) @ [order]
       \<and> o_side order = ''buy'' \<and> o_status order = FILLED \<and> fee order = 0.1
       \<and> o_quantity order = 10 \<and> o_price order = 10
       \<and> get_open_trades (executor w') = [trade]
       \<and> t_symbol trade = ''X'' \<and> entry_price trade = 10 \<and> t_quantity trade = 10
       \<and> get_position (strategy w') ''X''
           = Some \<lparr>p_symbol = ''X'', p_entry_price = 10, p_quantity = 10, opened_at = 7\<rparr>)"
proof -
  have h1: "paper_mode (executor fresh_world)"
    by (rule fresh_world_paper)
  have h2: "paper_balance (executor fresh_world) ''USDT'' = Some 10000"
    by (simp add: fresh_world_def init_def load_trade_history_def Let_def PAPER_TRADING_def)
  have h3: "can_open_position (strategy fresh_world) ''X''"
    by (rule fresh_world_can_open)
  have h4: "get_open_trades (executor fresh_world) = []"
    by (simp add: fresh_world_def init_def load_trade_history_def Let_def PAPER_TRADING_def
        get_open_trades_def)
  show ?thesis
    using h1 h2 h3 h4 paper_buy_scenario [OF h1 h2 h3 h4, of 7 Raises "[]"] by blast
qed

text \<open>
  C4. In paper mode with a USDT balance of 9900 and a position of 10 units of \<open>X\<close>
  entered at 10, a SELL signal at price 11 gives proceeds of 110, a filled sell order
  with fee 0.11, a balance of exactly 10010, and closes the first open trade of \<open>X\<close>
  with pnl 10 and pnl_percent 10; the position is gone.
\<close>

theorem paper_sell_scenario:
  assumes "paper_mode (executor w)"
    and "paper_balance (executor w) ''USDT'' = Some 9900"
    and "get_position (strategy w) X = Some pos"
    and "p_quantity pos = 10" and "p_entry_price pos = 10"
    and "trades (executor w) = pre @ (k, t) # post"
    and "list_all (\<lambda>kt. \<not> is_open_for X (snd kt)) pre" and "is_open_for X t"
    and "MIN_TRADE_AMOUNT_USDT \<le> requested_amount amount_usdt"
  shows "\<exists>order w'.
     execute_signal w now reply
        \<lparr>signal_type = SELL, symbol = X, price = 11, reasons = rs\<rparr> amount_usdt
       = Inr (Some order, w')
     \<and> o_quantity order * o_price order = 110
     \<and> o_side order = ''sell'' \<and> o_status order = FILLED \<and> fee order = 0.11
     \<and> orders (executor w') = orders (executor w) @ [order]
     \<and> paper_balance (executor w') ''USDT'' = Some 10010
     \<and> trades (executor w')
         = pre @ (k, t\<lparr>exit_price := 11, exit_time := Some now, pnl := 10,
                        pnl_percent := 10, t_status := ''closed''\<rparr>) # post
     \<and> get_position (strategy w') X = None"
proof -
  let ?sig = "\<lparr>signal_type = SELL, symbol = X, price = 11, reasons = rs\<rparr>"
  let ?order = "\<lparr>order_id = ''PAPER-'' @ string_of_nat (order_counter (executor w) + 1),
        o_symbol = X, o_side = ''sell'', order_type = ''market'', o_quantity = 10,
        o_price = 11, o_status = FILLED, timestamp = now, filled_price = 11,
        fee = 0.11, o_is_paper = True\<rparr>"
  let ?w' = "w\<lparr>executor := (executor w)
          \<lparr>paper_balance := (paper_balance (executor w))(''USDT'' \<mapsto> 10010),
           order_counter := order_counter (executor w) + 1,
           orders := orders (executor w) @ [?order],
           trades := close_first_open_trade X 11 now 10 10 (trades (executor w))\<rparr>,
       strategy := close_position (strategy w) X\<rparr>"
  have cost: "p_quantity pos * p_entry_price pos \<noteq> 0"
    using assms(4,5) by simp
  have run: "execute_signal w now reply ?sig amount_usdt = Inr (Some ?order, ?w')"
    using paper_sell_accepted [of ?sig w amount_usdt pos 9900 now reply] assms(1,2,3,9) cost
    by (simp add: assms(4,5))
  have trd: "trades (executor ?w')
      = pre @ (k, t\<lparr>exit_price := 11, exit_time := Some now, pnl := 10,
                     pnl_percent := 10, t_status := ''closed''\<rparr>) # post"
    using close_first_open_trade_first [OF assms(7,8), of 11 now 10 10 k post]
    by (simp add: assms(6))
  have pos: "get_position (strategy ?w') X = None"
    by (simp add: get_position_closed)
  show ?thesis
    apply (rule exI [of _ ?order])
    apply (rule exI [of _ ?w'])
    apply (simp only: run trd pos)
    apply simp
    done
qed

theorem paper_sell_scenario_witness:
  "paper_mode (executor holding_world)
   \<and> paper_balance (executor holding_world) ''USDT'' = Some 9900
   \<and> get_position (strategy holding_world) ''X''
       = Some \<lparr>p_symbol = ''X'', p_entry_price = 10, p_quantity = 10, opened_at = 7\<rparr>
   \<and> trades (executor holding_world) = [] @ hd (trades (executor holding_world)) # []
   \<and> is_open_for ''X'' (snd (hd (trades (executor holding_world))))
   \<and> MIN_TRADE_AMOUNT_USDT \<le> requested_amount None
   \<and> (\<exists>order w'.
        execute_signal holding_world 9 Raises
          \<lparr>signal_type = SELL, symbol = ''X'', price = 11, reasons = []\<rparr> None
         = Inr (Some order, w')
        \<and> o_quantity order * o_price order = 110
        \<and> fee order = 0.11
        \<and> paper_balance (executor w') ''USDT'' = Some 10010
        \<and> map (t_status \<circ> snd) (trades (executor w')) = [''closed'']
        \<and> map (pnl \<circ> snd) (trades (executor w')) = [10]
        \<and> map (pnl_percent \<circ> snd) (trades (executor w')) = [10]
        \<and> get_position (strategy w') ''X'' = None)"
proof -
  let ?pos = "\<lparr>p_symbol = ''X'', p_entry_price = 10, p_quantity = 10, opened_at = 7\<rparr>"
  let ?t = "snd (hd (trades (executor holding_world)))"
  have h1: "paper_mode (executor holding_world)"
    by (simp add: holding_world_def)
  have h2: "paper_balance (executor holding_world) ''USDT'' = Some 9900"
    by (simp add: holding_world_def)
  have h3: "get_position (strategy holding_world) ''X'' = Some ?pos"
    by (simp add: holding_world_def get_position_def)
  have h4: "p_quantity ?pos = 10" and h5: "p_entry_price ?pos = 10"
    by simp_all
  have h6: "trades (executor holding_world) = [] @ (''TRADE-1'', ?t) # []"
    by (simp add: holding_world_def)
  have h7: "list_all (\<lambda>kt. \<not> is_open_for ''X'' (snd kt)) []"
    by simp
  have h8: "is_open_for ''X'' ?t"
    by (simp add: holding_world_def is_open_for_def)
  have h9: "MIN_TRADE_AMOUNT_USDT \<le> requested_amount None"
    by (simp add: requested_amount_def settings_defs)
  from paper_sell_scenario [OF h1 h2 h3 h4 h5 h6 h7 h8 h9, of 9 Raises "[]"]
  obtain order w' where run: "execute_signal holding_world 9 Raises
          \<lparr>signal_type = SELL, symbol = ''X'', price = 11, reasons = []\<rparr> None
         = Inr (Some order, w')"
    and props: "o_quantity order * o_price order = 110" "fee order = 0.11"
      "paper_balance (executor w') ''USDT'' = Some 10010"
      "trades (executor w')
         = [] @ (''TRADE-1'', ?t\<lparr>exit_price := 11, exit_time := Some 9, pnl := 10,
                        pnl_percent := 10, t_status := ''closed''\<rparr>) # []"
      "get_position (strategy w') ''X'' = None"
    by blast
  have "\<exists>order w'.
        execute_signal holding_world 9 Raises
          \<lparr>signal_type = SELL, symbol = ''X'', price = 11, reasons = []\<rparr> None
         = Inr (Some order, w')
        \<and> o_quantity order * o_price order = 110
        \<and> fee order = 0.11
        \<and> paper_balance (executor w') ''USDT'' = Some 10010
        \<and> map (t_status \<circ> snd) (trades (executor w')) = [''closed'']
        \<and> map (pnl \<circ> snd) (trades (executor w')) = [10]
        \<and> map (pnl_percent \<circ> snd) (trades (executor w')) = [10]
        \<and> get_position (strategy w') ''X'' = None"
    apply (rule exI [of _ order])
    apply (rule exI [of _ w'])
    apply (simp add: run props)
    done
  with h1 h2 h3 h8 h9 show ?thesis
    by (simp add: holding_world_def)
qed

text \<open>
  C5, as amended. A SELL signal whose symbol has no open position returns no order and
  changes nothing. With a position whose cost \<open>quantity * entry_price\<close> is not 0, in
  paper mode, with a USDT entry in the balance and an amount that passes the validation
  (none, 0, or at least the minimum), the call credits the balance by the proceeds
  \<open>quantity * price\<close>, appends a filled sell order with fee \<open>proceeds * 0.001\<close>, closes
  the first open trade of the symbol with the exit price, the exit time, the pnl
  \<open>proceeds - cost\<close> and the pnl_percent \<open>pnl / cost * 100\<close>, and removes the position.
\<close>

theorem paper_sell_effect:
  assumes "signal_type signal = SELL"
  shows "(get_position (strategy w) (symbol signal) = None
            \<longrightarrow> execute_signal w now reply signal amount_usdt = Inr (None, w))
     \<and> (paper_mode (executor w)
          \<and> MIN_TRADE_AMOUNT_USDT \<le> requested_amount amount_usdt
          \<and> get_position (strategy w) (symbol signal) = Some pos
          \<and> p_quantity pos * p_entry_price pos \<noteq> 0
          \<and> paper_balance (executor w) ''USDT'' = Some bal
        \<longrightarrow> (\<exists>order w'.
             execute_signal w now reply signal amount_usdt = Inr (Some order, w')
             \<and> paper_balance (executor w')
                 = (paper_balance (executor w))
                     (''USDT'' \<mapsto> bal + p_quantity pos * price signal)
             \<and> orders (executor w') = orders (executor w) @ [order]
             \<and> o_symbol order = symbol signal \<and> o_side order = ''sell''
             \<and> o_quantity order = p_quantity pos \<and> o_price order = price signal
             \<and> o_status order = FILLED
             \<and> fee order = p_quantity pos * price signal * 0.001
             \<and> (\<forall>pre k t post.
                   trades (executor w) = pre @ (k, t) # post
                   \<and> list_all (\<lambda>kt. \<not> is_open_for (symbol signal) (snd kt)) pre
                   \<and> is_open_for (symbol signal) t
                 \<longrightarrow> trades (executor w')
                     = pre @ (k, t\<lparr>exit_price := price signal, exit_time := Some now,
                          pnl := p_quantity pos * price signal
                                   - p_quantity pos * p_entry_price pos,
                          pnl_percent :=
                            (p_quantity pos * price signal
                               - p_quantity pos * p_entry_price pos)
                              / (p_quantity pos * p_entry_price pos) * 100,
                          t_status := ''closed''\<rparr>) # post)
             \<and> (list_all (\<lambda>kt. \<not> is_open_for (symbol signal) (snd kt))
                    (trades (executor w))
                 \<longrightarrow> trades (executor w') = trades (executor w))
             \<and> positions (strategy w')
                 = AList.delete (symbol signal) (positions (strategy w))
             \<and> get_position (strategy w') (symbol signal) = None))"
proof (intro conjI impI)
  assume "get_position (strategy w) (symbol signal) = None"
  then show "execute_signal w now reply signal amount_usdt = Inr (None, w)"
    using assms by (simp add: execute_signal_unfold execute_sell_def Let_def)
next
  let ?proceeds = "p_quantity pos * price signal"
  let ?cost = "p_quantity pos * p_entry_price pos"
  let ?order = "\<lparr>order_id = ''PAPER-'' @ string_of_nat (order_counter (executor w) + 1),
        o_symbol = symbol signal, o_side = ''sell'', order_type = ''market'',
        o_quantity = p_quantity pos, o_price = price signal, o_status = FILLED,
        timestamp = now, filled_price = price signal,
        fee = ?proceeds * 0.001, o_is_paper = True\<rparr>"
  let ?w' = "w\<lparr>executor := (executor w)
          \<lparr>paper_balance := (paper_balance (executor w))(''USDT'' \<mapsto> bal + ?proceeds),
           order_counter := order_counter (executor w) + 1,
           orders := orders (executor w) @ [?order],
           trades := close_first_open_trade (symbol signal) (price signal) now
             (?proceeds - ?cost) ((?proceeds - ?cost) / ?cost * 100) (trades (executor w))\<rparr>,
       strategy := close_position (strategy w) (symbol signal)\<rparr>"
  assume h: "paper_mode (executor w)
          \<and> MIN_TRADE_AMOUNT_USDT \<le> requested_amount amount_usdt
          \<and> get_position (strategy w) (symbol signal) = Some pos
          \<and> p_quantity pos * p_entry_price pos \<noteq> 0
          \<and> paper_balance (executor w) ''USDT'' = Some bal"
  have run: "execute_signal w now reply signal amount_usdt = Inr (Some ?order, ?w')"
    using paper_sell_accepted [of signal w amount_usdt pos bal now reply] assms h
    by simp
  have pos: "get_position (strategy ?w') (symbol signal) = None"
    by (simp add: get_position_closed)
  show "\<exists>order w'.
             execute_signal w now reply signal amount_usdt = Inr (Some order, w')
             \<and> paper_balance (executor w')
                 = (paper_balance (executor w))
                     (''USDT'' \<mapsto> bal + p_quantity pos * price signal)
             \<and> orders (executor w') = orders (executor w) @ [order]
             \<and> o_symbol order = symbol signal \<and> o_side order = ''sell''
             \<and> o_quantity order = p_quantity pos \<and> o_price order = price signal
             \<and> o_status order = FILLED
             \<and> fee order = p_quantity pos * price signal * 0.001
             \<and> (\<forall>pre k t post.
                   trades (executor w) = pre @ (k, t) # post
                   \<and> list_all (\<lambda>kt. \<not> is_open_for (symbol signal) (snd kt)) pre
                   \<and> is_open_for (symbol signal) t
                 \<longrightarrow> trades (executor w')
                     = pre @ (k, t\<lparr>exit_price := price signal, exit_time := Some now,
                          pnl := p_quantity pos * price signal
                                   - p_quantity pos * p_entry_price pos,
                          pnl_percent :=
                            (p_quantity pos * price signal
                               - p_quantity pos * p_entry_price pos)
                              / (p_quantity pos * p_entry_price pos) * 100,
                          t_status := ''closed''\<rparr>) # post)
             \<and> (list_all (\<lambda>kt. \<not> is_open_for (symbol signal) (snd kt))
                    (trades (executor w))
                 \<longrightarrow> trades (executor w') = trades (executor w))
             \<and> positions (strategy w')
                 = AList.delete (symbol signal) (positions (strategy w))
             \<and> get_position (strategy w') (symbol signal) = None"
    apply (rule exI [of _ ?order])
    apply (rule exI [of _ ?w'])
    apply (simp only: run pos)
    apply (simp add: close_first_open_trade_first close_first_open_trade_none
        close_position_def)
    done
qed

theorem paper_sell_effect_witness:
  "get_position (strategy fresh_world) ''X'' = None
   \<and> execute_signal fresh_world 9 Raises
        \<lparr>signal_type = SELL, symbol = ''X'', price = 11, reasons = []\<rparr> None
       = Inr (None, fresh_world)
   \<and> paper_mode (executor holding_world)
   \<and> MIN_TRADE_AMOUNT_USDT \<le> requested_amount None
   \<and> get_position (strategy holding_world) ''X''
       = Some \<lparr>p_symbol = ''X'', p_entry_price = 10, p_quantity = 10, opened_at = 7\<rparr>
   \<and> paper_balance (executor holding_world) ''USDT'' = Some 9900
   \<and> (\<exists>order w'.
        execute_signal holding_world 9 Raises
          \<lparr>signal_type = SELL, symbol = ''X'', price = 11, reasons = []\<rparr> None
         = Inr (Some order, w')
        \<and> paper_balance (executor w') ''USDT'' = Some 10010
        \<and> orders (executor w') = orders (executor holding_world) @ [order]
        \<and> o_side order = ''sell'' \<and> o_status order = FILLED \<and> fee order = 0.11
        \<and> get_position (strategy w') ''X'' = None)"
proof -
  let ?sig = "\<lparr>signal_type = SELL, symbol = ''X'', price = 11, reasons = []\<rparr>"
  let ?pos = "\<lparr>p_symbol = ''X'', p_entry_price = 10, p_quantity = 10, opened_at = 7\<rparr>"
  have s: "signal_type ?sig = SELL"
    by simp
  have a: "get_position (strategy fresh_world) ''X'' = None"
    by (simp add: fresh_world_def get_position_def)
  have h: "paper_mode (executor holding_world)"
      "MIN_TRADE_AMOUNT_USDT \<le> requested_amount None"
      "get_position (strategy holding_world) ''X'' = Some ?pos"
      "paper_balance (executor holding_world) ''USDT'' = Some 9900"
    by (simp_all add: holding_world_def get_position_def requested_amount_def settings_defs)
  have c: "p_quantity ?pos * p_entry_price ?pos \<noteq> 0"
    by simp
  from paper_sell_effect [OF s, of fresh_world 9 Raises None] a
  have r1: "execute_signal fresh_world 9 Raises ?sig None = Inr (None, fresh_world)"
    by simp
  from paper_sell_effect [OF s, of holding_world 9 Raises None ?pos 9900] h c
  obtain order w' where run: "execute_signal holding_world 9 Raises ?sig None
        = Inr (Some order, w')"
    and props: "paper_balance (executor w')
        = (paper_balance (executor holding_world))(''USDT'' \<mapsto> 9900 + 10 * 11)"
      "orders (executor w') = orders (executor holding_world) @ [order]"
      "o_side order = ''sell''" "o_status order = FILLED" "fee order = 10 * 11 * 0.001"
      "get_position (strategy w') ''X'' = None"
    by auto
  have "\<exists>order w'.
        execute_signal holding_world 9 Raises ?sig None = Inr (Some order, w')
        \<and> paper_balance (executor w') ''USDT'' = Some 10010
        \<and> orders (executor w') = orders (executor holding_world) @ [order]
        \<and> o_side order = ''sell'' \<and> o_status order = FILLED \<and> fee order = 0.11
        \<and> get_position (strategy w') ''X'' = None"
    apply (rule exI [of _ order])
    apply (rule exI [of _ w'])
    apply (simp add: run props)
    done
  with a r1 h show ?thesis
    by simp
qed

text \<open>
  C5 as stated fails for a SELL signal that comes with an amount below the minimum: the
  holding bot has an open position in \<open>X\<close>, and the call with amount 5 returns no order
  and changes nothing.
\<close>

theorem paper_sell_small_amount_counterexample:
  "paper_mode (executor holding_world)
   \<and> get_position (strategy holding_world) ''X''
       = Some \<lparr>p_symbol = ''X'', p_entry_price = 10, p_quantity = 10, opened_at = 7\<rparr>
   \<and> execute_signal holding_world 9 Raises
        \<lparr>signal_type = SELL, symbol = ''X'', price = 11, reasons = []\<rparr> (Some 5)
       = Inr (None, holding_world)"
  by (simp add: execute_signal_def Let_def settings_defs holding_world_def get_position_def)

section \<open>The paper round trip\<close>

text \<open>
  C1, as amended. In paper mode, for every symbol that can open a position and has no
  open trade, every price \<open>p > 0\<close> and every amount within the bounds that the balance
  covers, a BUY at \<open>p\<close> for the quantity \<open>amount / p\<close> followed by a SELL at \<open>p\<close>
  yields a closed trade with pnl 0 and pnl_percent 0 and restores the paper balance and
  the positions to exactly what they were before the buy. Each of the two orders
  records a fee of 0.1% of the amount; no fee is taken from the balance or from the
  pnl.
\<close>

theorem paper_round_trip:
  assumes "paper_mode (executor w)" and "0 < p"
    and "MIN_TRADE_AMOUNT_USDT \<le> a" and "a \<le> MAX_TRADE_AMOUNT_USDT"
    and "can_open_position (strategy w) symb"
    and "paper_balance (executor w) ''USDT'' = Some bal" and "a \<le> bal"
    and "list_all (\<lambda>kt. \<not> is_open_for symb (snd kt)) (trades (executor w))"
    and "MIN_TRADE_AMOUNT_USDT \<le> requested_amount amount_usdt'"
  shows "\<exists>o1 w1 o2 w2 t.
     execute_signal w now reply
        \<lparr>signal_type = BUY, symbol = symb, price = p, reasons = rs\<rparr> (Some a)
       = Inr (Some o1, w1)
     \<and> o_quantity o1 = a / p
     \<and> execute_signal w1 now' reply'
        \<lparr>signal_type = SELL, symbol = symb, price = p, reasons = rs'\<rparr> amount_usdt'
       = Inr (Some o2, w2)
     \<and> o_quantity o2 = a / p
     \<and> fee o1 = a * 0.001 \<and> fee o2 = a * 0.001
     \<and> paper_balance (executor w2) = paper_balance (executor w)
     \<and> positions (strategy w2) = positions (strategy w)
     \<and> map_of (trades (executor w2))
          (''TRADE-'' @ string_of_nat (trade_counter (executor w) + 1)) = Some t
     \<and> t_symbol t = symb \<and> t_status t = ''closed'' \<and> t_quantity t = a / p
     \<and> entry_price t = p \<and> exit_price t = p \<and> pnl t = 0 \<and> pnl_percent t = 0"
proof -
  let ?buy = "\<lparr>signal_type = BUY, symbol = symb, price = p, reasons = rs\<rparr>"
  let ?sell = "\<lparr>signal_type = SELL, symbol = symb, price = p, reasons = rs'\<rparr>"
  define q where "q = a / p"
  define tid where "tid = ''TRADE-'' @ string_of_nat (trade_counter (executor w) + 1)"
  define tr where "tr = \<lparr>trade_id = tid, t_symbol = symb, t_side = ''long'',
      t_quantity = q, entry_price = p, exit_price = 0, pnl = 0, pnl_percent = 0,
      entry_time = Some now, exit_time = None, t_is_paper = True, t_status = ''open''\<rparr>"
  define o1 where "o1 = \<lparr>order_id = ''PAPER-'' @ string_of_nat (order_counter (executor w) + 1),
      o_symbol = symb, o_side = ''buy'', order_type = ''market'', o_quantity = q,
      o_price = p, o_status = FILLED, timestamp = now, filled_price = p,
      fee = a * 0.001, o_is_paper = True\<rparr>"
  define pos where "pos = \<lparr>p_symbol = symb, p_entry_price = p, p_quantity = q,
      opened_at = now\<rparr>"
  define w1 where "w1 = w\<lparr>executor := (executor w)
        \<lparr>paper_balance := (paper_balance (executor w))(''USDT'' \<mapsto> bal - a),
         order_counter := order_counter (executor w) + 1,
         orders := orders (executor w) @ [o1],
         trade_counter := trade_counter (executor w) + 1,
         trades := AList.update tid tr (trades (executor w))\<rparr>,
      strategy := add_position (strategy w) now symb p q\<rparr>"
  define o2 where "o2 = \<lparr>order_id = ''PAPER-'' @ string_of_nat (order_counter (executor w1) + 1),
      o_symbol = symb, o_side = ''sell'', order_type = ''market'', o_quantity = q,
      o_price = p, o_status = FILLED, timestamp = now', filled_price = p,
      fee = a * 0.001, o_is_paper = True\<rparr>"
  define tr' where "tr' = tr\<lparr>exit_price := p, exit_time := Some now', pnl := 0,
      pnl_percent := 0, t_status := ''closed''\<rparr>"
  define w2 where "w2 = w1\<lparr>executor := (executor w1)
        \<lparr>paper_balance := (paper_balance (executor w1))(''USDT'' \<mapsto> bal - a + a),
         order_counter := order_counter (executor w1) + 1,
         orders := orders (executor w1) @ [o2],
         trades := close_first_open_trade symb p now' 0 0 (trades (executor w1))\<rparr>,
      strategy := close_position (strategy w1) symb\<rparr>"
  have qp: "q * p = a"
    using assms(2) by (simp add: q_def)
  have a_pos: "a \<noteq> 0"
    using assms(3) by (simp add: MIN_TRADE_AMOUNT_USDT_def)
  have amt: "requested_amount (Some a) = a" "effective_amount (Some a) = a"
    using assms(4) a_pos by (simp_all add: requested_amount_def effective_amount_def)
  have buy: "execute_signal w now reply ?buy (Some a) = Inr (Some o1, w1)"
    using paper_buy_accepted [of ?buy w "Some a" bal now reply] assms(1,2,3,5,6,7)
    by (simp add: amt o1_def w1_def tr_def tid_def q_def)
  have pm1: "paper_mode (executor w1)"
    using assms(1) by (simp add: w1_def)
  have bal1: "paper_balance (executor w1) ''USDT'' = Some (bal - a)"
    by (simp add: w1_def)
  have gp1: "get_position (strategy w1) (symbol ?sell) = Some pos"
    by (simp add: w1_def get_position_def add_position_def update_conv' pos_def)
  have cost1: "p_quantity pos * p_entry_price pos \<noteq> 0"
    using qp a_pos by (simp add: pos_def)
  have sell: "execute_signal w1 now' reply' ?sell amount_usdt' = Inr (Some o2, w2)"
    using paper_sell_accepted [of ?sell w1 amount_usdt' pos "bal - a" now' reply']
      pm1 bal1 gp1 cost1 assms(9)
    by (simp add: o2_def w2_def pos_def qp)
  have open_tr: "is_open_for symb tr"
    by (simp add: is_open_for_def tr_def)
  have trades2: "trades (executor w2) = AList.update tid tr' (trades (executor w))"
    using close_first_open_trade_update [OF assms(8) open_tr, of p now' 0 0 tid]
    by (simp add: w2_def w1_def tr'_def)
  have look: "map_of (trades (executor w2)) tid = Some tr'"
    by (simp add: trades2 update_conv')
  have none: "map_of (positions (strategy w)) symb = None"
    using assms(5) by (simp add: can_open_position_def get_position_def)
  have pos2: "positions (strategy w2) = positions (strategy w)"
    using delete_update_fresh [OF none]
    by (simp add: w2_def w1_def close_position_def add_position_def)
  have bal2: "paper_balance (executor w2) = paper_balance (executor w)"
    using assms(6) by (auto simp: w2_def w1_def)
  show ?thesis
    apply (rule exI [of _ o1])
    apply (rule exI [of _ w1])
    apply (rule exI [of _ o2])
    apply (rule exI [of _ w2])
    apply (rule exI [of _ tr'])
    apply (simp only: buy sell bal2 pos2 look [unfolded tid_def])
    apply (simp add: o1_def o2_def tr'_def tr_def q_def)
    done
qed

theorem paper_round_trip_witness:
  "paper_mode (executor fresh_world) \<and> (0::real) < 10
   \<and> MIN_TRADE_AMOUNT_USDT \<le> 100 \<and> 100 \<le> MAX_TRADE_AMOUNT_USDT
   \<and> can_open_position (strategy fresh_world) ''X''
   \<and> paper_balance (executor fresh_world) ''USDT'' = Some 10000
   \<and> trades (executor fresh_world) = []
   \<and> (\<exists>o1 w1 o2 w2 t.
       execute_signal fresh_world 7 Raises
          \<lparr>signal_type = BUY, symbol = ''X'', price = 10, reasons = []\<rparr> (Some 100)
         = Inr (Some o1, w1)
       \<and> execute_signal w1 9 Raises
          \<lparr>signal_type = SELL, symbol = ''X'', price = 10, reasons = []\<rparr> (Some 100)
         = Inr (Some o2, w2)
       \<and> fee o1 = 0.1 \<and> fee o2 = 0.1
       \<and> paper_balance (executor w2) ''USDT'' = Some 10000
       \<and> positions (strategy w2) = []
       \<and> map_of (trades (executor w2)) ''TRADE-1'' = Some t
       \<and> t_status t = ''closed'' \<and> pnl t = 0 \<and> pnl_percent t = 0)"
proof -
  have h1: "paper_mode (executor fresh_world)"
    by (rule fresh_world_paper)
  have h2: "(0::real) < 10"
    by simp
  have h3: "MIN_TRADE_AMOUNT_USDT \<le> 100" and h4: "100 \<le> MAX_TRADE_AMOUNT_USDT"
    by (simp_all add: settings_defs)
  have h5: "can_open_position (strategy fresh_world) ''X''"
    by (rule fresh_world_can_open)
  have h6: "paper_balance (executor fresh_world) ''USDT'' = Some 10000"
    by (simp add: fresh_world_def init_def load_trade_history_def Let_def PAPER_TRADING_def)
  have h7: "(100::real) \<le> 10000"
    by simp
  have tr0: "trades (executor fresh_world) = []"
    by (simp add: fresh_world_def init_def load_trade_history_def Let_def PAPER_TRADING_def)
  have h8: "list_all (\<lambda>kt. \<not> is_open_for ''X'' (snd kt)) (trades (executor fresh_world))"
    by (simp add: tr0)
  have h9: "MIN_TRADE_AMOUNT_USDT \<le> requested_amount (Some 100)"
    by (simp add: requested_amount_def settings_defs)
  have tc: "trade_counter (executor fresh_world) = 0"
      "positions (strategy fresh_world) = []"
    by (simp_all add: fresh_world_def init_def load_trade_history_def Let_def PAPER_TRADING_def)
  from paper_round_trip [OF h1 h2 h3 h4 h5 h6 h7 h8 h9, of 7 Raises "[]" 9 Raises "[]"]
  obtain o1 w1 o2 w2 t where
    r: "execute_signal fresh_world 7 Raises
          \<lparr>signal_type = BUY, symbol = ''X'', price = 10, reasons = []\<rparr> (Some 100)
         = Inr (Some o1, w1)"
       "execute_signal w1 9 Raises
          \<lparr>signal_type = SELL, symbol = ''X'', price = 10, reasons = []\<rparr> (Some 100)
         = Inr (Some o2, w2)"
       "fee o1 = 100 * 0.001" "fee o2 = 100 * 0.001"
       "paper_balance (executor w2) = paper_balance (executor fresh_world)"
       "positions (strategy w2) = positions (strategy fresh_world)"
       "map_of (trades (executor w2))
          (''TRADE-'' @ string_of_nat (trade_counter (executor fresh_world) + 1)) = Some t"
       "t_status t = ''closed''" "pnl t = 0" "pnl_percent t = 0"
    by blast
  have "\<exists>o1 w1 o2 w2 t.
       execute_signal fresh_world 7 Raises
          \<lparr>signal_type = BUY, symbol = ''X'', price = 10, reasons = []\<rparr> (Some 100)
         = Inr (Some o1, w1)
       \<and> execute_signal w1 9 Raises
          \<lparr>signal_type = SELL, symbol = ''X'', price = 10, reasons = []\<rparr> (Some 100)
         = Inr (Some o2, w2)
       \<and> fee o1 = 0.1 \<and> fee o2 = 0.1
       \<and> paper_balance (executor w2) ''USDT'' = Some 10000
       \<and> positions (strategy w2) = []
       \<and> map_of (trades (executor w2)) ''TRADE-1'' = Some t
       \<and> t_status t = ''closed'' \<and> pnl t = 0 \<and> pnl_percent t = 0"
    apply (rule exI [of _ o1])
    apply (rule exI [of _ w1])
    apply (rule exI [of _ o2])
    apply (rule exI [of _ w2])
    apply (rule exI [of _ t])
    using r h6 tc
    apply (simp add: string_of_nat_1)
    done
  with h1 h3 h4 h5 h6 tr0 show ?thesis
    by simp
qed

text \<open>
  C1 as stated fails on the fresh paper bot: after a buy of \<open>X\<close> for 100 at price 10 and
  a sell at 10, both orders carry a fee of 0.1, yet the balance is 10000 again, not
  10000 less the fees, and the pnl of the closed trade is 0, not 0 less the fees.
\<close>

theorem paper_round_trip_counterexample:
  "world_after fresh_world (execute_signal fresh_world 7 Raises
      \<lparr>signal_type = BUY, symbol = ''X'', price = 10, reasons = []\<rparr> (Some 100))
     = holding_world
   \<and> map fee (orders (executor sold_world)) = [0.1, 0.1]
   \<and> paper_balance (executor fresh_world) ''USDT'' = Some 10000
   \<and> paper_balance (executor sold_world) ''USDT'' = Some 10000
   \<and> paper_balance (executor sold_world) ''USDT'' \<noteq> Some (10000 - (0.1 + 0.1))
   \<and> map pnl (get_closed_trades (executor sold_world)) = [0]
   \<and> map pnl (get_closed_trades (executor sold_world)) \<noteq> [0 - (0.1 + 0.1)]"
  by (simp add: run_defs settings_defs fresh_world_def holding_world_def sold_world_def
      string_of_nat_1 string_of_nat_2 world_after_def get_closed_trades_def)

end
